theory Spec2Isabelle
  imports Complex_Main "HOL-Library.Word" "HOL-Library.Log_Nat"
begin

unbundle bit_operations_syntax

section \<open>Python values, exceptions and floating point\<close>

text \<open>
  The driver is a single Python class, \<^verbatim>\<open>MPU6050\<close>, talking to the sensor through
  the \<^verbatim>\<open>smbus\<close> module. Python integers are unbounded (\<^typ>\<open>int\<close>); Python floats are
  IEEE binary64 numbers, modelled as the reals they denote, every arithmetic result
  being rounded by \<open>fl\<close> below. The operator \<^verbatim>\<open>/\<close> is Python 3's true division.
\<close>

datatype pyval =
    PyNone
  | PyBool bool
  | PyInt int
  | PyFloat real
  | PyStr string
  | PyList "pyval list"
  | PyDict "(string \<times> pyval) list"

datatype error =
    NameError string
  | TypeError
  | IOError

text \<open>
  Rounding to the nearest binary64 number, ties to even: \<open>ilog2 x\<close> is the binary
  exponent of \<open>x\<close>, and the significand keeps 53 bits. The exponent range of binary64 is
  not modelled: the values the driver computes come from 16-bit samples and the
  constants below, far from overflow and from the subnormal numbers.
\<close>

definition rne :: "real \<Rightarrow> int" where
  "rne x = (let f = \<lfloor>x\<rfloor>; r = x - of_int f
            in if r < 1 / 2 then f
               else if 1 / 2 < r then f + 1
               else if even f then f else f + 1)"

definition ilog2 :: "real \<Rightarrow> int" where
  "ilog2 x = (if 1 \<le> \<bar>x\<bar> then int (floorlog 2 (nat \<lfloor>\<bar>x\<bar>\<rfloor>)) - 1
              else - int (floorlog 2 (nat (\<lceil>1 / \<bar>x\<bar>\<rceil> - 1))))"

definition fl :: "real \<Rightarrow> real" where
  "fl x = (if x = 0 then 0
           else let e = ilog2 x - 52
                in of_int (rne (x / power_int 2 e)) * power_int 2 e)"

text \<open>A decimal literal denotes the binary64 number nearest to it.\<close>

definition float_lit :: "real \<Rightarrow> real" where
  "float_lit x = fl x"

text \<open>\<^verbatim>\<open>a / b\<close> on two ints (correctly rounded quotient; the divisor is never 0 here).\<close>

definition int_truediv :: "int \<Rightarrow> int \<Rightarrow> real" where
  "int_truediv a b = fl (of_int a / of_int b)"

text \<open>\<^verbatim>\<open>a / y\<close> on an int and a float: the int is converted first.\<close>

definition int_float_truediv :: "int \<Rightarrow> real \<Rightarrow> real" where
  "int_float_truediv a y = fl (fl (of_int a) / y)"

definition float_add :: "real \<Rightarrow> real \<Rightarrow> real" where
  "float_add x y = fl (x + y)"

definition float_mul :: "real \<Rightarrow> real \<Rightarrow> real" where
  "float_mul x y = fl (x * y)"

text \<open>
  \<^verbatim>\<open>v is True\<close> and \<^verbatim>\<open>v is False\<close> test identity with the two bool singletons; no int,
  however truthy, is identical to one of them.
\<close>

definition is_True :: "pyval \<Rightarrow> bool" where
  "is_True v = (v = PyBool True)"

definition is_False :: "pyval \<Rightarrow> bool" where
  "is_False v = (v = PyBool False)"

text \<open>\<^verbatim>\<open>v == n\<close> for an int constant \<open>n\<close>.\<close>

fun py_eq_int :: "pyval \<Rightarrow> int \<Rightarrow> bool" where
  "py_eq_int (PyInt a) n = (a = n)"
| "py_eq_int (PyBool b) n = ((if b then 1 else 0) = n)"
| "py_eq_int (PyFloat x) n = (x = of_int n)"
| "py_eq_int _ n = False"

section \<open>The world: the I2C bus and standard output\<close>

text \<open>
  \<^verbatim>\<open>bus = smbus.SMBus(1)\<close> is a class attribute, one bus for every instance. The world
  holds the register file of every device on that bus (device address, then register,
  to a byte), the log of the bus transactions attempted so far, the lines printed so
  far, and a fault schedule: \<open>nack w n\<close> says that the \<open>n\<close>-th transaction fails, which
  \<^verbatim>\<open>smbus\<close> reports by raising IOError.
\<close>

datatype bus_op =
    ReadByte int int
  | WriteByte int int int

record world =
  regs :: "int \<Rightarrow> int \<Rightarrow> 8 word"
  trace :: "bus_op list"
  stdout :: "string list"
  nack :: "nat \<Rightarrow> bool"

type_synonym 'a py = "world \<Rightarrow> (error + 'a) \<times> world"

definition ret :: "'a \<Rightarrow> 'a py" where
  "ret x w = (Inr x, w)"

definition raise :: "error \<Rightarrow> 'a py" where
  "raise e w = (Inl e, w)"

definition py_bind :: "'a py \<Rightarrow> ('a \<Rightarrow> 'b py) \<Rightarrow> 'b py" where
  "py_bind m f w = (case m w of
                      (Inl e, w') \<Rightarrow> (Inl e, w')
                    | (Inr x, w') \<Rightarrow> f x w')"

text \<open>\<^verbatim>\<open>bus.read_byte_data(addr, reg)\<close>: one transaction, returning an int in 0..255.\<close>

definition read_byte_data :: "int \<Rightarrow> int \<Rightarrow> int py" where
  "read_byte_data addr reg w =
     (let w' = w\<lparr>trace := trace w @ [ReadByte addr reg]\<rparr>
      in if nack w (length (trace w)) then (Inl IOError, w')
         else (Inr (uint (regs w addr reg)), w'))"

text \<open>
  \<^verbatim>\<open>bus.write_byte_data(addr, reg, value)\<close>: one transaction; the value goes out as one
  byte.
\<close>

definition write_byte_data :: "int \<Rightarrow> int \<Rightarrow> int \<Rightarrow> unit py" where
  "write_byte_data addr reg val w =
     (let w' = w\<lparr>trace := trace w @ [WriteByte addr reg val]\<rparr>
      in if nack w (length (trace w)) then (Inl IOError, w')
         else (Inr (), w'\<lparr>regs := (regs w)(addr := (regs w addr)(reg := word_of_int val))\<rparr>))"

definition py_print :: "string \<Rightarrow> unit py" where
  "py_print s w = (Inr (), w\<lparr>stdout := stdout w @ [s]\<rparr>)"

text \<open>
  A call \<^verbatim>\<open>f()\<close> of a bare name from inside a method. The name is looked up in the
  module's globals (a class body's names are not in scope inside its methods, and none
  of the names called this way is a builtin). The module binds \<^verbatim>\<open>smbus\<close> and
  \<^verbatim>\<open>MPU6050\<close>, and, when run as a script, \<^verbatim>\<open>mpu\<close>, \<^verbatim>\<open>accelData\<close> and \<^verbatim>\<open>gyroData\<close>; none
  of them can be called without arguments.
\<close>

definition module_globals :: "string list" where
  "module_globals = [''smbus'', ''MPU6050'', ''mpu'', ''accelData'', ''gyroData'']"

definition call_global :: "string \<Rightarrow> pyval py" where
  "call_global name =
     (if name \<in> set module_globals then raise TypeError else raise (NameError name))"

section \<open>The class MPU6050\<close>

record MPU6050 =
  address :: int

definition GRAVITIY_MS2 :: real where "GRAVITIY_MS2 = float_lit (980665 / 100000)"

definition ACCEL_SCALE_MODIFIER_2G :: real where "ACCEL_SCALE_MODIFIER_2G = float_lit 16384"
definition ACCEL_SCALE_MODIFIER_4G :: real where "ACCEL_SCALE_MODIFIER_4G = float_lit 8192"
definition ACCEL_SCALE_MODIFIER_8G :: real where "ACCEL_SCALE_MODIFIER_8G = float_lit 4096"
definition ACCEL_SCALE_MODIFIER_16G :: real where "ACCEL_SCALE_MODIFIER_16G = float_lit 2048"

definition GYRO_SCALE_MODIFIER_250DEG :: real where "GYRO_SCALE_MODIFIER_250DEG = float_lit 131"
definition GYRO_SCALE_MODIFIER_500DEG :: real where "GYRO_SCALE_MODIFIER_500DEG = float_lit (655 / 10)"
definition GYRO_SCALE_MODIFIER_1000DEG :: real where "GYRO_SCALE_MODIFIER_1000DEG = float_lit (328 / 10)"
definition GYRO_SCALE_MODIFIER_2000DEG :: real where "GYRO_SCALE_MODIFIER_2000DEG = float_lit (164 / 10)"

definition ACCEL_RANGE_2G :: int where "ACCEL_RANGE_2G = 0x00"
definition ACCEL_RANGE_4G :: int where "ACCEL_RANGE_4G = 0x08"
definition ACCEL_RANGE_8G :: int where "ACCEL_RANGE_8G = 0x10"
definition ACCEL_RANGE_16G :: int where "ACCEL_RANGE_16G = 0x18"

definition GYRO_RANGE_250DEG :: int where "GYRO_RANGE_250DEG = 0x00"
definition GYRO_RANGE_500DEG :: int where "GYRO_RANGE_500DEG = 0x08"
definition GYRO_RANGE_1000DEG :: int where "GYRO_RANGE_1000DEG = 0x10"
definition GYRO_RANGE_2000DEG :: int where "GYRO_RANGE_2000DEG = 0x18"

definition PWR_MGMT_1 :: int where "PWR_MGMT_1 = 0x6B"
definition PWR_MGMT_2 :: int where "PWR_MGMT_2 = 0x6C"

definition ACCEL_XOUT0 :: int where "ACCEL_XOUT0 = 0x3B"
definition ACCEL_YOUT0 :: int where "ACCEL_YOUT0 = 0x3D"
definition ACCEL_ZOUT0 :: int where "ACCEL_ZOUT0 = 0x3F"

definition TEMP_OUT0 :: int where "TEMP_OUT0 = 0x41"
definition TEMP_OUT1 :: int where "TEMP_OUT1 = 0x42"

definition GYRO_XOUT0 :: int where "GYRO_XOUT0 = 0x43"
definition GYRO_YOUT0 :: int where "GYRO_YOUT0 = 0x45"
definition GYRO_ZOUT0 :: int where "GYRO_ZOUT0 = 0x47"

definition ACCEL_CONFIG :: int where "ACCEL_CONFIG = 0x1C"
definition GYRO_CONFIG :: int where "GYRO_CONFIG = 0x1B"

text \<open>\<^verbatim>\<open>__init__\<close>: store the address and wake the device up.\<close>

definition MPU6050_init :: "int \<Rightarrow> MPU6050 py" where
  "MPU6050_init addr =
     py_bind (write_byte_data addr PWR_MGMT_1 0x00) (\<lambda>_.
     ret \<lparr>address = addr\<rparr>)"

definition read_i2c_word :: "MPU6050 \<Rightarrow> int \<Rightarrow> int py" where
  "read_i2c_word self register =
     py_bind (read_byte_data (address self) register) (\<lambda>high.
     py_bind (read_byte_data (address self) (register + 1)) (\<lambda>low.
     let value = push_bit 8 high + low
     in if value \<ge> 0x8000 then ret (- ((65535 - value) + 1))
        else ret value))"

definition get_temp :: "MPU6050 \<Rightarrow> real py" where
  "get_temp self =
     py_bind (read_i2c_word self TEMP_OUT0) (\<lambda>rawTemp.
     let actualTemp = float_add (int_truediv rawTemp 340) (float_lit (3653 / 100))
     in ret actualTemp)"

definition set_accel_range :: "MPU6050 \<Rightarrow> int \<Rightarrow> unit py" where
  "set_accel_range self accelRange =
     py_bind (write_byte_data (address self) ACCEL_CONFIG 0x00) (\<lambda>_.
     write_byte_data (address self) ACCEL_CONFIG accelRange)"

definition read_accel_range :: "MPU6050 \<Rightarrow> pyval \<Rightarrow> pyval py" where
  "read_accel_range self raw =
     py_bind (read_byte_data (address self) ACCEL_CONFIG) (\<lambda>rawData.
     if is_True raw then ret (PyInt rawData)
     else if is_False raw then
       (if rawData = ACCEL_RANGE_2G then ret (PyInt 2)
        else if rawData = ACCEL_RANGE_4G then ret (PyInt 4)
        else if rawData = ACCEL_RANGE_8G then ret (PyInt 8)
        else if rawData = ACCEL_RANGE_16G then ret (PyInt 16)
        else ret (PyInt (- 1)))
     else ret PyNone)"

definition get_accel_data :: "MPU6050 \<Rightarrow> pyval \<Rightarrow> pyval py" where
  "get_accel_data self g =
     py_bind (read_i2c_word self ACCEL_XOUT0) (\<lambda>x.
     py_bind (read_i2c_word self ACCEL_YOUT0) (\<lambda>y.
     py_bind (read_i2c_word self ACCEL_ZOUT0) (\<lambda>z.
     py_bind (read_accel_range self (PyBool True)) (\<lambda>accelRange.
     py_bind
       (if py_eq_int accelRange ACCEL_RANGE_2G then ret ACCEL_SCALE_MODIFIER_2G
        else if py_eq_int accelRange ACCEL_RANGE_4G then ret ACCEL_SCALE_MODIFIER_4G
        else if py_eq_int accelRange ACCEL_RANGE_8G then ret ACCEL_SCALE_MODIFIER_8G
        else if py_eq_int accelRange ACCEL_RANGE_16G then ret ACCEL_SCALE_MODIFIER_16G
        else py_bind
               (py_print ''Unkown range - accelScaleModifier set to self.ACCEL_SCALE_MODIFIER_2G'')
               (\<lambda>_. ret ACCEL_SCALE_MODIFIER_2G))
       (\<lambda>accelScaleModifier.
     let x = int_float_truediv x accelScaleModifier;
         y = int_float_truediv y accelScaleModifier;
         z = int_float_truediv z accelScaleModifier
     in if is_True g then
          ret (PyDict [(''x'', PyFloat x), (''y'', PyFloat y), (''z'', PyFloat z)])
        else if is_False g then
          (let x = float_mul x GRAVITIY_MS2;
               y = float_mul y GRAVITIY_MS2;
               z = float_mul z GRAVITIY_MS2
           in ret (PyDict [(''x'', PyFloat x), (''y'', PyFloat y), (''z'', PyFloat z)]))
        else ret PyNone)))))"

definition set_gyro_range :: "MPU6050 \<Rightarrow> int \<Rightarrow> unit py" where
  "set_gyro_range self gyroRange =
     py_bind (write_byte_data (address self) GYRO_CONFIG 0x00) (\<lambda>_.
     write_byte_data (address self) GYRO_CONFIG gyroRange)"

definition read_gyro_range :: "MPU6050 \<Rightarrow> pyval \<Rightarrow> pyval py" where
  "read_gyro_range self raw =
     py_bind (read_byte_data (address self) GYRO_CONFIG) (\<lambda>rawData.
     if is_True raw then ret (PyInt rawData)
     else if is_False raw then
       (if rawData = GYRO_RANGE_250DEG then ret (PyInt 250)
        else if rawData = GYRO_RANGE_500DEG then ret (PyInt 500)
        else if rawData = GYRO_RANGE_1000DEG then ret (PyInt 1000)
        else if rawData = GYRO_RANGE_2000DEG then ret (PyInt 2000)
        else ret (PyInt (- 1)))
     else ret PyNone)"

definition get_gyro_data :: "MPU6050 \<Rightarrow> pyval py" where
  "get_gyro_data self =
     py_bind (read_i2c_word self GYRO_XOUT0) (\<lambda>x.
     py_bind (read_i2c_word self GYRO_YOUT0) (\<lambda>y.
     py_bind (read_i2c_word self GYRO_ZOUT0) (\<lambda>z.
     py_bind (read_gyro_range self (PyBool True)) (\<lambda>gyroRange.
     py_bind
       (if py_eq_int gyroRange GYRO_RANGE_250DEG then ret GYRO_SCALE_MODIFIER_250DEG
        else if py_eq_int gyroRange GYRO_RANGE_500DEG then ret GYRO_SCALE_MODIFIER_500DEG
        else if py_eq_int gyroRange GYRO_RANGE_1000DEG then ret GYRO_SCALE_MODIFIER_1000DEG
        else if py_eq_int gyroRange GYRO_RANGE_2000DEG then ret GYRO_SCALE_MODIFIER_2000DEG
        else py_bind
               (py_print ''Unkown range - gyroScaleModifier set to self.GYRO_SCALE_MODIFIER_250DEG'')
               (\<lambda>_. ret GYRO_SCALE_MODIFIER_250DEG))
       (\<lambda>gyroScaleModifier.
     let x = int_float_truediv x gyroScaleModifier;
         y = int_float_truediv y gyroScaleModifier;
         z = int_float_truediv z gyroScaleModifier
     in ret (PyDict [(''x'', PyFloat x), (''y'', PyFloat y), (''z'', PyFloat z)]))))))"

text \<open>
  \<^verbatim>\<open>get_all_data\<close> calls the bare names \<^verbatim>\<open>get_temp()\<close>, \<^verbatim>\<open>get_accel_data()\<close> and
  \<^verbatim>\<open>get_gyro_data()\<close>, not the methods of \<^verbatim>\<open>self\<close>.
\<close>

definition get_all_data :: "MPU6050 \<Rightarrow> pyval py" where
  "get_all_data self =
     py_bind (call_global ''get_temp'') (\<lambda>temp.
     py_bind (call_global ''get_accel_data'') (\<lambda>accel.
     py_bind (call_global ''get_gyro_data'') (\<lambda>gyro.
     ret (PyList [accel, gyro, temp]))))"

section \<open>Vocabulary of the statements\<close>

text \<open>The next \<open>k\<close> bus transactions succeed.\<close>

definition bus_ok :: "world \<Rightarrow> nat \<Rightarrow> bool" where
  "bus_ok w k = (\<forall>i \<in> {0..<k}. \<not> nack w (length (trace w) + i))"

text \<open>The signed 16-bit sample a device holds in the registers \<open>r\<close> (high) and \<open>r + 1\<close>.\<close>

definition sample :: "world \<Rightarrow> int \<Rightarrow> int \<Rightarrow> int" where
  "sample w a r = sint (word_cat (regs w a r) (regs w a (r + 1)) :: 16 word)"

text \<open>The scale modifier paired with the byte in the accelerometer's configuration register.\<close>

definition accel_modifier :: "int \<Rightarrow> real" where
  "accel_modifier c =
     (if c = ACCEL_RANGE_2G then ACCEL_SCALE_MODIFIER_2G
      else if c = ACCEL_RANGE_4G then ACCEL_SCALE_MODIFIER_4G
      else if c = ACCEL_RANGE_8G then ACCEL_SCALE_MODIFIER_8G
      else if c = ACCEL_RANGE_16G then ACCEL_SCALE_MODIFIER_16G
      else ACCEL_SCALE_MODIFIER_2G)"

definition accel_known :: "int \<Rightarrow> bool" where
  "accel_known c = (c \<in> {ACCEL_RANGE_2G, ACCEL_RANGE_4G, ACCEL_RANGE_8G, ACCEL_RANGE_16G})"

definition gyro_modifier :: "int \<Rightarrow> real" where
  "gyro_modifier c =
     (if c = GYRO_RANGE_250DEG then GYRO_SCALE_MODIFIER_250DEG
      else if c = GYRO_RANGE_500DEG then GYRO_SCALE_MODIFIER_500DEG
      else if c = GYRO_RANGE_1000DEG then GYRO_SCALE_MODIFIER_1000DEG
      else if c = GYRO_RANGE_2000DEG then GYRO_SCALE_MODIFIER_2000DEG
      else GYRO_SCALE_MODIFIER_250DEG)"

definition gyro_known :: "int \<Rightarrow> bool" where
  "gyro_known c = (c \<in> {GYRO_RANGE_250DEG, GYRO_RANGE_500DEG, GYRO_RANGE_1000DEG, GYRO_RANGE_2000DEG})"

text \<open>
  Concrete inputs: the sensor at its usual address 0x68, and a world with an empty
  log, a bus that never fails, and every device holding byte \<open>f r\<close> in register \<open>r\<close>.
\<close>

definition mpu0 :: MPU6050 where
  "mpu0 = \<lparr>address = 0x68\<rparr>"

definition world_of :: "(int \<Rightarrow> 8 word) \<Rightarrow> world" where
  "world_of f = \<lparr>regs = (\<lambda>a. f), trace = [], stdout = [], nack = (\<lambda>n. False)\<rparr>"

text \<open>
  A device shaken along its axes with both self-test fields set: raw acceleration
  (16384, -16384, 0), raw angular rate (131, -131, 0), and 0xE0 in both configuration
  registers, which is none of the range encodings.
\<close>

definition shaken :: "int \<Rightarrow> 8 word" where
  "shaken r =
     (if r = 0x3B then 0x40 else if r = 0x3D then 0xC0
      else if r = 0x44 then 0x83 else if r = 0x45 then 0xFF else if r = 0x46 then 0x7D
      else if r = 0x1C \<or> r = 0x1B then 0xE0
      else 0x00)"

section \<open>Rounding\<close>

text \<open>
  \<open>ilog2\<close> is the binary exponent: \<open>ilog2 x = k\<close> whenever \<open>2 ^ k \<le> \<bar>x\<bar> < 2 ^ (k + 1)\<close>.
  With the exponent known, \<open>fl x\<close> is plain arithmetic.
\<close>

lemma floorlog2_eqI:
  assumes "2 ^ j \<le> n" and "n < 2 ^ Suc j"
  shows "floorlog 2 n = Suc j"
proof (rule antisym)
  show "floorlog 2 n \<le> Suc j"
    using assms(2) by (intro floorlog_leI) simp_all
  show "Suc j \<le> floorlog 2 n"
    using assms(1) by (intro floorlog_ge_SucI) simp_all
qed

lemma powi_neg_nat: "2 powi (- int n) = 1 / (2::real) ^ n"
  by (simp only: power_int_minus_divide power_int_of_nat)

lemma ilog2_eqI:
  assumes lo: "2 powi k \<le> \<bar>x\<bar>" and hi: "\<bar>x\<bar> < 2 powi (k + 1)"
  shows "ilog2 x = k"
proof (cases "1 \<le> \<bar>x\<bar>")
  case True
  have "(1::real) < 2 powi (k + 1)"
    using True hi by simp
  then have k: "0 \<le> k"
    using power_int_increasing [of "k + 1" 0 "2::real"] by (cases "0 \<le> k") simp_all
  define j where "j = nat k"
  have kj: "k = int j" using k by (simp add: j_def)
  have lo': "(2::real) ^ j \<le> \<bar>x\<bar>" and hi': "\<bar>x\<bar> < (2::real) ^ Suc j"
    using lo hi unfolding kj by (simp_all add: power_int_add)
  have "(2::int) ^ j \<le> \<lfloor>\<bar>x\<bar>\<rfloor>"
    using lo' by (simp add: le_floor_iff)
  moreover have "\<lfloor>\<bar>x\<bar>\<rfloor> < (2::int) ^ Suc j"
    using hi' by (simp add: floor_less_iff)
  ultimately have "2 ^ j \<le> nat \<lfloor>\<bar>x\<bar>\<rfloor>" and "nat \<lfloor>\<bar>x\<bar>\<rfloor> < 2 ^ Suc j"
    by (simp_all add: le_nat_iff nat_less_iff)
  then have "floorlog 2 (nat \<lfloor>\<bar>x\<bar>\<rfloor>) = Suc j"
    by (rule floorlog2_eqI)
  then show ?thesis
    using True by (simp add: ilog2_def kj)
next
  case False
  have "(0::real) < 2 powi k"
    by (rule zero_less_power_int) simp
  then have pos: "0 < \<bar>x\<bar>"
    using lo by linarith
  have lt1: "2 powi k < (1::real)"
    using False lo by simp
  have k: "k < 0"
  proof (rule ccontr)
    assume "\<not> k < 0"
    then have "(1::real) \<le> 2 powi k"
      by (intro one_le_power_int) simp_all
    with lt1 show False by simp
  qed
  define j where "j = nat (- k - 1)"
  have kj: "k = - int (Suc j)" using k by (simp add: j_def)
  let ?y = "1 / \<bar>x\<bar>"
  have lo': "?y \<le> 2 ^ Suc j"
  proof -
    have "1 / 2 ^ Suc j \<le> \<bar>x\<bar>"
      using lo unfolding kj powi_neg_nat .
    then show ?thesis
      using pos by (simp add: field_simps)
  qed
  have hi': "2 ^ j < ?y"
  proof -
    have "k + 1 = - int j" using kj by simp
    then have "\<bar>x\<bar> < 1 / 2 ^ j"
      using hi by (simp only: powi_neg_nat)
    then show ?thesis
      using pos by (simp add: field_simps)
  qed
  define c where "c = \<lceil>?y\<rceil>"
  have c_le: "c \<le> 2 ^ Suc j"
    using lo' by (simp add: c_def ceiling_le_iff)
  have c_gt: "2 ^ j < c"
    using hi' by (simp add: c_def less_ceiling_iff)
  have "(1::int) \<le> 2 ^ j"
    by simp
  with c_gt have "1 < c"
    by linarith
  then have c1: "int (nat (c - 1)) = c - 1"
    by simp
  have "int (2 ^ j) \<le> int (nat (c - 1))"
    unfolding c1 using c_gt by simp
  then have A: "2 ^ j \<le> nat (c - 1)"
    by (simp only: of_nat_le_iff)
  have "int (nat (c - 1)) < int (2 ^ Suc j)"
    unfolding c1 using c_le by simp
  then have B: "nat (c - 1) < 2 ^ Suc j"
    by (simp only: of_nat_less_iff)
  from A B have "floorlog 2 (nat (c - 1)) = Suc j"
    by (rule floorlog2_eqI)
  then show ?thesis
    using False by (simp add: ilog2_def kj c_def)
qed

lemma fl_eqI:
  assumes "2 powi k \<le> \<bar>x\<bar>" and "\<bar>x\<bar> < 2 powi (k + 1)"
  shows "fl x = of_int (rne (x / 2 powi (k - 52))) * 2 powi (k - 52)"
proof -
  have "(0::real) < 2 powi k"
    by (rule zero_less_power_int) simp
  with assms(1) have "0 < \<bar>x\<bar>"
    by linarith
  then have "x \<noteq> 0"
    by simp
  then show ?thesis
    by (simp add: fl_def Let_def ilog2_eqI [OF assms])
qed

text \<open>
  \<open>ilog2\<close> is total on the nonzero reals, so \<open>fl\<close> rounds every real: the result is
  within half a unit in the last place, which is a relative error of at most \<open>2 ^ -53\<close>,
  and a number that fits in 53 bits is not changed.
\<close>

lemma rne_error: "\<bar>of_int (rne y) - y\<bar> \<le> 1 / 2"
proof -
  have "of_int \<lfloor>y\<rfloor> \<le> y" and "y < of_int \<lfloor>y\<rfloor> + 1"
    by linarith+
  then show ?thesis
    by (auto simp: rne_def Let_def)
qed

lemma ilog2_bounds:
  assumes "x \<noteq> 0"
  shows "2 powi (ilog2 x) \<le> \<bar>x\<bar>" and "\<bar>x\<bar> < 2 powi (ilog2 x + 1)"
proof -
  define k where "k = \<lfloor>log 2 \<bar>x\<bar>\<rfloor>"
  have pos: "0 < \<bar>x\<bar>"
    using assms by simp
  have "2 powr real_of_int k \<le> \<bar>x\<bar> \<and> \<bar>x\<bar> < 2 powr real_of_int (k + 1)"
    using floor_log_eq_powr_iff [of "\<bar>x\<bar>" 2 k] pos by (simp add: k_def)
  then have b: "2 powi k \<le> \<bar>x\<bar>" "\<bar>x\<bar> < 2 powi (k + 1)"
    by (simp_all only: powr_real_of_int' [of 2, simplified])
  then have "ilog2 x = k"
    by (rule ilog2_eqI)
  with b show "2 powi (ilog2 x) \<le> \<bar>x\<bar>" and "\<bar>x\<bar> < 2 powi (ilog2 x + 1)"
    by simp_all
qed

lemma fl_error:
  assumes "x \<noteq> 0"
  shows "\<bar>fl x - x\<bar> \<le> 2 powi (ilog2 x - 53)"
proof -
  define e where "e = ilog2 x - 52"
  define p :: real where "p = 2 powi e"
  have p: "0 < p"
    by (simp add: p_def)
  have "fl x - x = (of_int (rne (x / p)) - x / p) * p"
    using assms p by (simp add: fl_def Let_def e_def p_def field_simps)
  then have "\<bar>fl x - x\<bar> = \<bar>of_int (rne (x / p)) - x / p\<bar> * p"
    using p by (simp add: abs_mult)
  also have "\<dots> \<le> 1 / 2 * p"
    using rne_error [of "x / p"] p by (intro mult_right_mono) simp_all
  also have "\<dots> = 2 powi (ilog2 x - 53)"
  proof -
    have "(2::real) powi ((ilog2 x - 53) + 1) = 2 powi (ilog2 x - 53) * 2"
      by (rule power_int_add_1) simp
    moreover have "ilog2 x - 53 + 1 = ilog2 x - 52"
      by simp
    ultimately have "(2::real) powi (ilog2 x - 52) = 2 powi (ilog2 x - 53) * 2"
      by (simp only:)
    then show ?thesis
      by (simp add: p_def e_def)
  qed
  finally show ?thesis .
qed

lemma fl_rel_error: "\<bar>fl x - x\<bar> \<le> \<bar>x\<bar> / 2 ^ 53"
proof (cases "x = 0")
  case True
  then show ?thesis by (simp add: fl_def)
next
  case False
  have "2 powi (ilog2 x - 53) = 2 powi (ilog2 x) / (2::real) ^ 53"
    by (simp add: power_int_diff)
  also have "\<dots> \<le> \<bar>x\<bar> / 2 ^ 53"
    using ilog2_bounds(1) [OF False] by (intro divide_right_mono) simp_all
  finally show ?thesis
    using fl_error [OF False] by linarith
qed

lemma rne_of_int: "rne (of_int n) = n"
  by (simp add: rne_def Let_def)

lemma fl_exact:
  assumes "\<bar>n\<bar> < 2 ^ 53"
  shows "fl (of_int n * 2 powi e) = of_int n * 2 powi e"
proof (cases "n = 0")
  case True
  then show ?thesis by (simp add: fl_def)
next
  case False
  define x :: real where "x = of_int n * 2 powi e"
  define k where "k = ilog2 x"
  have x0: "x \<noteq> 0"
    using False by (simp add: x_def)
  have "\<bar>x\<bar> = \<bar>of_int n\<bar> * 2 powi e"
    by (simp add: x_def abs_mult)
  also have "\<dots> < 2 ^ 53 * 2 powi e"
  proof (rule mult_strict_right_mono)
    have "real_of_int \<bar>n\<bar> < real_of_int (2 ^ 53)"
      using assms by (simp only: of_int_less_iff)
    then show "\<bar>real_of_int n\<bar> < 2 ^ 53"
      by simp
    show "(0::real) < 2 powi e"
      by simp
  qed
  also have "\<dots> = 2 powi (53 + e)"
    by (simp add: power_int_add)
  finally have "\<bar>x\<bar> < 2 powi (53 + e)" .
  moreover have "2 powi k \<le> \<bar>x\<bar>"
    unfolding k_def using x0 by (rule ilog2_bounds)
  ultimately have lt: "(2::real) powi k < 2 powi (53 + e)"
    by linarith
  have "k < 53 + e"
  proof (rule ccontr)
    assume "\<not> k < 53 + e"
    then have "(2::real) powi (53 + e) \<le> 2 powi k"
      by (intro power_int_increasing) simp_all
    with lt show False by simp
  qed
  then obtain d where d: "e - (k - 52) = int d"
    using nonneg_int_cases [of "e - (k - 52)"] by auto
  have "x / 2 powi (k - 52) = of_int n * 2 powi (e - (k - 52))"
    by (simp add: x_def power_int_diff)
  also have "\<dots> = of_int (n * 2 ^ d)"
    by (simp add: d)
  finally have "rne (x / 2 powi (k - 52)) = n * 2 ^ d"
    by (simp only: rne_of_int)
  then have "fl x = of_int (n * 2 ^ d) * 2 powi (k - 52)"
    using x0 by (simp add: fl_def Let_def k_def)
  also have "\<dots> = of_int n * (2 powi (int d) * 2 powi (k - 52))"
    by simp
  also have "2 powi (int d) * 2 powi (k - 52) = (2::real) powi (int d + (k - 52))"
    by (simp add: power_int_add)
  also have "int d + (k - 52) = e"
    using d by simp
  finally show ?thesis
    by (simp add: x_def)
qed

lemma fl_of_int: "\<bar>n\<bar> < 2 ^ 53 \<Longrightarrow> fl (of_int n) = of_int n"
  using fl_exact [of n 0] by simp

text \<open>The floats the examples of the statements need.\<close>

lemmas fl_ev = rne_def Let_def power_int_minus

lemma fl_0: "fl 0 = 0" by (simp add: fl_def)
lemma fl_1: "fl 1 = 1" by (subst fl_eqI [where k = 0]) (simp_all add: fl_ev)
lemma fl_m1: "fl (- 1) = - 1" by (subst fl_eqI [where k = 0]) (simp_all add: fl_ev)
lemma fl_16384: "fl 16384 = 16384" by (subst fl_eqI [where k = 14]) (simp_all add: fl_ev)
lemma fl_m16384: "fl (- 16384) = - 16384" by (subst fl_eqI [where k = 14]) (simp_all add: fl_ev)
lemma fl_131: "fl 131 = 131" by (subst fl_eqI [where k = 7]) (simp_all add: fl_ev)
lemma fl_3653: "fl (3653 / 100) = 1285285112405033 / 35184372088832"
  by (subst fl_eqI [where k = 5]) (simp_all add: fl_ev)
lemma fl_3753: "fl (3753 / 100) = 1320469484493865 / 35184372088832"
  by (subst fl_eqI [where k = 5]) (simp_all add: fl_ev)
lemma fl_g: "fl (980665 / 100000) = 5520653160719109 / 562949953421312"
  by (subst fl_eqI [where k = 3]) (simp_all add: fl_ev)
lemma fl_L: "fl (1285285112405033 / 35184372088832) = 1285285112405033 / 35184372088832"
  by (subst fl_eqI [where k = 5]) (simp_all add: fl_ev)
lemma fl_L1: "fl (1320469484493865 / 35184372088832) = 1320469484493865 / 35184372088832"
  by (subst fl_eqI [where k = 5]) (simp_all add: fl_ev)
lemma fl_G: "fl (5520653160719109 / 562949953421312) = 5520653160719109 / 562949953421312"
  by (subst fl_eqI [where k = 3]) (simp_all add: fl_ev)
lemma fl_mG: "fl (- (5520653160719109 / 562949953421312)) = - (5520653160719109 / 562949953421312)"
  by (subst fl_eqI [where k = 3]) (simp_all add: fl_ev)
lemma fl_m131: "fl (- 131) = - 131"
  by (subst fl_eqI [where k = 7]) (simp_all add: fl_ev)
lemma fl_g_reduced: "fl (196133 / 20000) = 5520653160719109 / 562949953421312"
  using fl_g by simp

lemma accel_example_floats:
  "int_float_truediv 16384 ACCEL_SCALE_MODIFIER_2G = 1"
  "int_float_truediv (- 16384) ACCEL_SCALE_MODIFIER_2G = - 1"
  "int_float_truediv 0 ACCEL_SCALE_MODIFIER_2G = 0"
  "float_mul 1 GRAVITIY_MS2 = float_lit (980665 / 100000)"
  "float_mul (- 1) GRAVITIY_MS2 = - float_lit (980665 / 100000)"
  "float_mul 0 GRAVITIY_MS2 = 0"
  by (simp_all add: int_float_truediv_def float_mul_def ACCEL_SCALE_MODIFIER_2G_def
        GRAVITIY_MS2_def float_lit_def fl_0 fl_1 fl_m1 fl_16384 fl_m16384 fl_g_reduced fl_G fl_mG)

lemma fallback_example_floats:
  "int_float_truediv 131 GYRO_SCALE_MODIFIER_250DEG = 1"
  "int_float_truediv (- 131) GYRO_SCALE_MODIFIER_250DEG = - 1"
  "int_float_truediv 0 GYRO_SCALE_MODIFIER_250DEG = 0"
  by (simp_all add: int_float_truediv_def GYRO_SCALE_MODIFIER_250DEG_def
        float_lit_def fl_0 fl_1 fl_m1 fl_131 fl_m131)


text \<open>How far the floats of the driver are from the real numbers they stand for.\<close>

lemma temp_accuracy:
  assumes "- 32768 \<le> raw" and "raw < 32768"
  shows "\<bar>float_add (int_truediv raw 340) (float_lit (3653 / 100))
          - (of_int raw / 340 + 3653 / 100)\<bar> \<le> 1 / 2 ^ 44"
proof -
  define u :: real where "u = 1 / 2 ^ 53"
  define q :: real where "q = of_int raw / 340"
  define a where "a = fl q"
  define l where "l = fl (3653 / 100)"
  define s where "s = a + l"
  have u: "0 < u" "u \<le> 1 / 512"
    by (simp_all add: u_def)
  have rel: "\<bar>fl x - x\<bar> \<le> \<bar>x\<bar> * u" for x
    using fl_rel_error [of x] by (simp add: u_def)
  have "\<bar>real_of_int raw\<bar> \<le> 32768"
    using assms by simp
  then have q: "\<bar>q\<bar> \<le> 97"
    by (simp add: q_def)
  have "\<bar>a - q\<bar> \<le> \<bar>q\<bar> * u"
    unfolding a_def by (rule rel)
  also have "\<dots> \<le> 97 * u"
    using q u by (intro mult_right_mono) simp_all
  finally have a: "\<bar>a - q\<bar> \<le> 97 * u" .
  have "\<bar>l - 3653 / 100\<bar> \<le> \<bar>3653 / 100\<bar> * u"
    unfolding l_def by (rule rel)
  also have "\<dots> \<le> 37 * u"
    using u by (intro mult_right_mono) simp_all
  finally have l: "\<bar>l - 3653 / 100\<bar> \<le> 37 * u" .
  have s: "\<bar>s\<bar> \<le> 135"
    using a l q u unfolding s_def by linarith
  have "\<bar>fl s - s\<bar> \<le> \<bar>s\<bar> * u"
    by (rule rel)
  also have "\<dots> \<le> 135 * u"
    using s u by (intro mult_right_mono) simp_all
  finally have r: "\<bar>fl s - s\<bar> \<le> 135 * u" .
  have "\<bar>fl s - (q + 3653 / 100)\<bar> \<le> 269 * u"
    using a l r unfolding s_def by linarith
  also have "\<dots> \<le> 1 / 2 ^ 44"
    by (simp add: u_def)
  finally show ?thesis
    by (simp add: float_add_def int_truediv_def float_lit_def s_def a_def l_def q_def)
qed

lemma accel_modifier_cases:
  "accel_modifier c = (if c = 0x00 then 16384 else if c = 0x08 then 8192
                       else if c = 0x10 then 4096 else if c = 0x18 then 2048 else 16384)"
proof -
  have "fl 16384 = 16384" "fl 8192 = 8192" "fl 4096 = 4096" "fl 2048 = 2048"
    using fl_of_int [of 16384] fl_of_int [of 8192] fl_of_int [of 4096] fl_of_int [of 2048]
    by simp_all
  then show ?thesis
    by (simp add: accel_modifier_def float_lit_def
          ACCEL_SCALE_MODIFIER_2G_def ACCEL_SCALE_MODIFIER_4G_def
          ACCEL_SCALE_MODIFIER_8G_def ACCEL_SCALE_MODIFIER_16G_def
          ACCEL_RANGE_2G_def ACCEL_RANGE_4G_def ACCEL_RANGE_8G_def ACCEL_RANGE_16G_def)
qed

lemma accel_modifier_power:
  "accel_modifier c = 2 powi 14 \<or> accel_modifier c = 2 powi 13
   \<or> accel_modifier c = 2 powi 12 \<or> accel_modifier c = 2 powi 11"
  by (simp add: accel_modifier_cases)

lemma accel_quotient_exact:
  assumes "- 32768 \<le> x" and "x < 32768"
  shows "int_float_truediv x (accel_modifier c) = of_int x / accel_modifier c"
proof -
  have small: "\<bar>x\<bar> < 2 ^ 53"
    using assms by simp
  have conv: "fl (of_int x) = of_int x"
    using small by (rule fl_of_int)
  have E: "fl (of_int x / 2 ^ j) = of_int x / 2 ^ j" for j :: nat
  proof -
    have "real_of_int x * 2 powi (- int j) = of_int x / 2 ^ j"
      by (simp add: powi_neg_nat)
    then show ?thesis
      using fl_exact [OF small, of "- int j"] by simp
  qed
  have "fl (of_int x / 16384) = of_int x / 16384" "fl (of_int x / 8192) = of_int x / 8192"
    "fl (of_int x / 4096) = of_int x / 4096" "fl (of_int x / 2048) = of_int x / 2048"
    using E [of 14] E [of 13] E [of 12] E [of 11] by simp_all
  then show ?thesis
    by (simp add: int_float_truediv_def conv accel_modifier_cases)
qed

lemma ms2_accuracy:
  assumes "- 32768 \<le> x" and "x < 32768"
  shows "\<bar>float_mul (of_int x / accel_modifier c) GRAVITIY_MS2
          - of_int x / accel_modifier c * (980665 / 100000)\<bar> \<le> 1 / 2 ^ 44"
proof -
  define u :: real where "u = 1 / 2 ^ 53"
  define q :: real where "q = of_int x / accel_modifier c"
  define g :: real where "g = 980665 / 100000"
  define G where "G = fl g"
  have u: "0 < u" "u \<le> 1 / 512"
    by (simp_all add: u_def)
  have g: "0 \<le> g" "g \<le> 10"
    by (simp_all add: g_def)
  have rel: "\<bar>fl t - t\<bar> \<le> \<bar>t\<bar> * u" for t
    using fl_rel_error [of t] by (simp add: u_def)
  have "\<bar>real_of_int x\<bar> \<le> 32768"
    using assms by simp
  then have q: "\<bar>q\<bar> \<le> 16"
    by (simp add: q_def accel_modifier_cases)
  have "\<bar>G - g\<bar> \<le> \<bar>g\<bar> * u"
    unfolding G_def by (rule rel)
  also have "\<dots> \<le> 10 * u"
    using u g by (intro mult_right_mono) simp_all
  finally have G: "\<bar>G - g\<bar> \<le> 10 * u" .
  then have G': "\<bar>G\<bar> \<le> 11"
    using u g by linarith
  have "q * G - q * g = q * (G - g)"
    by (simp only: right_diff_distrib)
  then have "\<bar>q * G - q * g\<bar> = \<bar>q\<bar> * \<bar>G - g\<bar>"
    by (simp only: abs_mult)
  also have "\<dots> \<le> 16 * (10 * u)"
    using q G by (intro mult_mono) simp_all
  finally have p: "\<bar>q * G - q * g\<bar> \<le> 160 * u"
    by simp
  have "\<bar>q * G\<bar> = \<bar>q\<bar> * \<bar>G\<bar>"
    by (simp only: abs_mult)
  also have "\<dots> \<le> 16 * 11"
    using q G' by (intro mult_mono) simp_all
  finally have qG: "\<bar>q * G\<bar> \<le> 176"
    by simp
  have "\<bar>fl (q * G) - q * G\<bar> \<le> \<bar>q * G\<bar> * u"
    by (rule rel)
  also have "\<dots> \<le> 176 * u"
    using qG u by (intro mult_right_mono) simp_all
  finally have r: "\<bar>fl (q * G) - q * G\<bar> \<le> 176 * u" .
  have "\<bar>fl (q * G) - q * g\<bar> \<le> 336 * u"
    using p r by linarith
  also have "\<dots> \<le> 1 / 2 ^ 44"
    by (simp add: u_def)
  finally have "\<bar>fl (q * G) - q * g\<bar> \<le> 1 / 2 ^ 44" .
  then show ?thesis
    unfolding float_mul_def GRAVITIY_MS2_def float_lit_def q_def G_def g_def .
qed


section \<open>Running the bus transactions\<close>

lemma bus_ok_mono: "bus_ok w k \<Longrightarrow> j \<le> k \<Longrightarrow> bus_ok w j"
  by (auto simp: bus_ok_def)

lemma bus_ok_world_of: "bus_ok (world_of f) k"
  by (simp add: bus_ok_def world_of_def)

lemma world_of_sel:
  "regs (world_of f) = (\<lambda>a. f)" "trace (world_of f) = []" "stdout (world_of f) = []"
  by (simp_all add: world_of_def)

lemma read_byte_data_at:
  assumes "bus_ok w (Suc (length ops))"
  shows "read_byte_data a r (w\<lparr>trace := trace w @ ops\<rparr>) =
           (Inr (uint (regs w a r)), w\<lparr>trace := trace w @ ops @ [ReadByte a r]\<rparr>)"
proof -
  have "\<not> nack w (length (trace w) + length ops)"
    using assms by (simp add: bus_ok_def)
  then show ?thesis
    by (simp add: read_byte_data_def Let_def)
qed

lemma read_byte_data_ok:
  assumes "bus_ok w 1"
  shows "read_byte_data a r w =
           (Inr (uint (regs w a r)), w\<lparr>trace := trace w @ [ReadByte a r]\<rparr>)"
  using read_byte_data_at [of w "[]" a r] assms by simp

lemma write_byte_data_ok:
  assumes "bus_ok w 1"
  shows "write_byte_data a r v w =
           (Inr (), w\<lparr>trace := trace w @ [WriteByte a r v],
                       regs := (regs w)(a := (regs w a)(r := word_of_int v))\<rparr>)"
  using assms by (simp add: write_byte_data_def bus_ok_def Let_def)

subsection \<open>Two bytes as a signed 16-bit number\<close>

lemma uint_word_cat_bytes:
  fixes hi lo :: "8 word"
  shows "uint (word_cat hi lo :: 16 word) = push_bit 8 (uint hi) + uint lo"
proof -
  have hi: "0 \<le> uint hi" "uint hi < 256" and lo: "0 \<le> uint lo" "uint lo < 256"
    using uint_lt2p [of hi] uint_lt2p [of lo] by simp_all
  have "uint (word_cat hi lo :: 16 word) = take_bit 16 (concat_bit 8 (uint lo) (uint hi))"
    by (simp add: word_cat_eq' uint_word_of_int_eq)
  also have "concat_bit 8 (uint lo) (uint hi) = push_bit 8 (uint hi) + uint lo"
    using lo by (simp add: concat_bit_eq take_bit_int_eq_self)
  also have "take_bit 16 (push_bit 8 (uint hi) + uint lo) = push_bit 8 (uint hi) + uint lo"
    using hi lo by (intro take_bit_int_eq_self) (simp_all add: push_bit_eq_mult)
  finally show ?thesis .
qed

lemma byte_or_eq_add:
  fixes hi lo :: "8 word"
  shows "push_bit 8 (uint hi) OR uint lo = push_bit 8 (uint hi) + uint lo"
proof -
  have lo: "0 \<le> uint lo" "uint lo < 256"
    using uint_lt2p [of lo] by simp_all
  have "push_bit 8 (uint hi) OR uint lo = concat_bit 8 (uint lo) (uint hi)"
    using lo by (simp add: concat_bit_def take_bit_int_eq_self or.commute)
  also have "\<dots> = push_bit 8 (uint hi) + uint lo"
    using lo by (simp add: concat_bit_eq take_bit_int_eq_self)
  finally show ?thesis .
qed

lemma sint16_cases:
  fixes v :: "16 word"
  shows "sint v = (if uint v < 0x8000 then uint v else uint v - 0x10000)"
proof -
  have b: "0 \<le> uint v" "uint v < 65536"
    using uint_lt2p [of v] by simp_all
  have "sint v = take_bit 16 (uint v) - 2 ^ 16 * of_bool (bit (uint v) 15)"
    by (simp add: sint_uint signed_take_bit_eq_take_bit_minus)
  moreover have "take_bit 16 (uint v) = uint v"
    using b by (simp add: take_bit_int_eq_self)
  moreover have "bit (uint v) 15 \<longleftrightarrow> \<not> uint v < 0x8000"
  proof -
    have "uint v div 32768 = 0 \<or> uint v div 32768 = 1" using b by auto
    moreover have "uint v div 32768 = 0 \<longleftrightarrow> uint v < 32768" using b by auto
    ultimately show ?thesis by (auto simp: bit_iff_odd)
  qed
  ultimately show ?thesis by simp
qed

lemma decode16:
  fixes hi lo :: "8 word"
  shows "(let value = push_bit 8 (uint hi) + uint lo
          in if value \<ge> 0x8000 then - ((65535 - value) + 1) else value)
         = sint (word_cat hi lo :: 16 word)"
  by (simp add: sint16_cases uint_word_cat_bytes Let_def)

lemma sample_eq:
  "sample w a r = (let v = push_bit 8 (uint (regs w a r)) + uint (regs w a (r + 1))
                   in if v < 0x8000 then v else v - 0x10000)"
  by (simp add: sample_def sint16_cases uint_word_cat_bytes Let_def)

lemma sample_range: "- 32768 \<le> sample w a r" "sample w a r < 32768"
  using sint_ge [of "word_cat (regs w a r) (regs w a (r + 1)) :: 16 word"]
    sint_lt [of "word_cat (regs w a r) (regs w a (r + 1)) :: 16 word"]
  by (simp_all add: sample_def)

lemma read_i2c_word_at:
  assumes "bus_ok w (length ops + 2)"
  shows "read_i2c_word self r (w\<lparr>trace := trace w @ ops\<rparr>) =
           (Inr (sample w (address self) r),
            w\<lparr>trace := trace w @ ops @
                   [ReadByte (address self) r, ReadByte (address self) (r + 1)]\<rparr>)"
proof -
  have "bus_ok w (Suc (length ops))"
    and "bus_ok w (Suc (length (ops @ [ReadByte (address self) r])))"
    using assms by (auto intro: bus_ok_mono)
  then show ?thesis
    using read_byte_data_at [of w ops "address self" r]
      read_byte_data_at [of w "ops @ [ReadByte (address self) r]" "address self" "r + 1"]
    by (simp add: read_i2c_word_def py_bind_def Let_def sample_def ret_def
          decode16 [symmetric])
qed

lemma read_i2c_word_ok:
  assumes "bus_ok w 2"
  shows "read_i2c_word self r w =
           (Inr (sample w (address self) r),
            w\<lparr>trace := trace w @ [ReadByte (address self) r, ReadByte (address self) (r + 1)]\<rparr>)"
  using read_i2c_word_at [of w "[]" self r] assms by (simp add: numeral_2_eq_2)

subsection \<open>The range queries and the measurements\<close>

lemma get_temp_ok:
  assumes "bus_ok w 2"
  shows "get_temp self w =
           (Inr (float_add (int_truediv (sample w (address self) TEMP_OUT0) 340)
                   (float_lit (3653 / 100))),
            w\<lparr>trace := trace w @ [ReadByte (address self) TEMP_OUT0,
                                     ReadByte (address self) (TEMP_OUT0 + 1)]\<rparr>)"
  by (simp add: get_temp_def py_bind_def read_i2c_word_ok [OF assms] ret_def)

lemma read_accel_range_at:
  assumes "bus_ok w (Suc (length ops))"
  shows "read_accel_range self raw (w\<lparr>trace := trace w @ ops\<rparr>) =
           (Inr (let c = uint (regs w (address self) ACCEL_CONFIG)
                 in if raw = PyBool True then PyInt c
                    else if raw = PyBool False then
                      PyInt (if c = 0x00 then 2 else if c = 0x08 then 4
                             else if c = 0x10 then 8 else if c = 0x18 then 16 else - 1)
                    else PyNone),
            w\<lparr>trace := trace w @ ops @ [ReadByte (address self) ACCEL_CONFIG]\<rparr>)"
  using read_byte_data_at [OF assms, of "address self" ACCEL_CONFIG]
  by (simp add: read_accel_range_def py_bind_def ret_def is_True_def is_False_def Let_def
        ACCEL_RANGE_2G_def ACCEL_RANGE_4G_def ACCEL_RANGE_8G_def ACCEL_RANGE_16G_def)

lemma read_accel_range_ok:
  assumes "bus_ok w 1"
  shows "read_accel_range self raw w =
           (Inr (let c = uint (regs w (address self) ACCEL_CONFIG)
                 in if raw = PyBool True then PyInt c
                    else if raw = PyBool False then
                      PyInt (if c = 0x00 then 2 else if c = 0x08 then 4
                             else if c = 0x10 then 8 else if c = 0x18 then 16 else - 1)
                    else PyNone),
            w\<lparr>trace := trace w @ [ReadByte (address self) ACCEL_CONFIG]\<rparr>)"
  using read_accel_range_at [of w "[]" self raw] assms by simp

lemma read_gyro_range_at:
  assumes "bus_ok w (Suc (length ops))"
  shows "read_gyro_range self raw (w\<lparr>trace := trace w @ ops\<rparr>) =
           (Inr (let c = uint (regs w (address self) GYRO_CONFIG)
                 in if raw = PyBool True then PyInt c
                    else if raw = PyBool False then
                      PyInt (if c = 0x00 then 250 else if c = 0x08 then 500
                             else if c = 0x10 then 1000 else if c = 0x18 then 2000 else - 1)
                    else PyNone),
            w\<lparr>trace := trace w @ ops @ [ReadByte (address self) GYRO_CONFIG]\<rparr>)"
  using read_byte_data_at [OF assms, of "address self" GYRO_CONFIG]
  by (simp add: read_gyro_range_def py_bind_def ret_def is_True_def is_False_def Let_def
        GYRO_RANGE_250DEG_def GYRO_RANGE_500DEG_def GYRO_RANGE_1000DEG_def
        GYRO_RANGE_2000DEG_def)

lemma read_gyro_range_ok:
  assumes "bus_ok w 1"
  shows "read_gyro_range self raw w =
           (Inr (let c = uint (regs w (address self) GYRO_CONFIG)
                 in if raw = PyBool True then PyInt c
                    else if raw = PyBool False then
                      PyInt (if c = 0x00 then 250 else if c = 0x08 then 500
                             else if c = 0x10 then 1000 else if c = 0x18 then 2000 else - 1)
                    else PyNone),
            w\<lparr>trace := trace w @ [ReadByte (address self) GYRO_CONFIG]\<rparr>)"
  using read_gyro_range_at [of w "[]" self raw] assms by simp

lemma get_accel_data_ok:
  assumes "bus_ok w 7"
  shows "get_accel_data self g w =
     (let a = address self;
          c = uint (regs w a ACCEL_CONFIG);
          m = accel_modifier c;
          x = int_float_truediv (sample w a ACCEL_XOUT0) m;
          y = int_float_truediv (sample w a ACCEL_YOUT0) m;
          z = int_float_truediv (sample w a ACCEL_ZOUT0) m
      in (Inr (if g = PyBool True then
                 PyDict [(''x'', PyFloat x), (''y'', PyFloat y), (''z'', PyFloat z)]
               else if g = PyBool False then
                 PyDict [(''x'', PyFloat (float_mul x GRAVITIY_MS2)),
                         (''y'', PyFloat (float_mul y GRAVITIY_MS2)),
                         (''z'', PyFloat (float_mul z GRAVITIY_MS2))]
               else PyNone),
          w\<lparr>trace := trace w @
                 [ReadByte a ACCEL_XOUT0, ReadByte a (ACCEL_XOUT0 + 1),
                  ReadByte a ACCEL_YOUT0, ReadByte a (ACCEL_YOUT0 + 1),
                  ReadByte a ACCEL_ZOUT0, ReadByte a (ACCEL_ZOUT0 + 1),
                  ReadByte a ACCEL_CONFIG],
              stdout := stdout w @
                 (if accel_known c then []
                  else [''Unkown range - accelScaleModifier set to self.ACCEL_SCALE_MODIFIER_2G''])\<rparr>))"
proof -
  have B: "\<And>k. k \<le> 7 \<Longrightarrow> bus_ok w k"
    using assms bus_ok_mono by blast
  show ?thesis
    unfolding get_accel_data_def
    by (simp add: py_bind_def read_i2c_word_ok read_i2c_word_at read_accel_range_at B
        Let_def ret_def py_print_def accel_modifier_def accel_known_def
        is_True_def is_False_def)
qed

lemma get_gyro_data_ok:
  assumes "bus_ok w 7"
  shows "get_gyro_data self w =
     (let a = address self;
          c = uint (regs w a GYRO_CONFIG);
          m = gyro_modifier c;
          x = int_float_truediv (sample w a GYRO_XOUT0) m;
          y = int_float_truediv (sample w a GYRO_YOUT0) m;
          z = int_float_truediv (sample w a GYRO_ZOUT0) m
      in (Inr (PyDict [(''x'', PyFloat x), (''y'', PyFloat y), (''z'', PyFloat z)]),
          w\<lparr>trace := trace w @
                 [ReadByte a GYRO_XOUT0, ReadByte a (GYRO_XOUT0 + 1),
                  ReadByte a GYRO_YOUT0, ReadByte a (GYRO_YOUT0 + 1),
                  ReadByte a GYRO_ZOUT0, ReadByte a (GYRO_ZOUT0 + 1),
                  ReadByte a GYRO_CONFIG],
              stdout := stdout w @
                 (if gyro_known c then []
                  else [''Unkown range - gyroScaleModifier set to self.GYRO_SCALE_MODIFIER_250DEG''])\<rparr>))"
proof -
  have B: "\<And>k. k \<le> 7 \<Longrightarrow> bus_ok w k"
    using assms bus_ok_mono by blast
  show ?thesis
    unfolding get_gyro_data_def
    by (simp add: py_bind_def read_i2c_word_ok read_i2c_word_at read_gyro_range_at B
        Let_def ret_def py_print_def gyro_modifier_def gyro_known_def)
qed

lemma set_accel_range_ok:
  assumes "bus_ok w 2"
  shows "set_accel_range self r w =
           (Inr (),
            w\<lparr>trace := trace w @ [WriteByte (address self) ACCEL_CONFIG 0x00,
                                     WriteByte (address self) ACCEL_CONFIG r],
              regs := (regs w)(address self :=
                        (regs w (address self))(ACCEL_CONFIG := word_of_int r))\<rparr>)"
proof -
  have "\<not> nack w (length (trace w))" and "\<not> nack w (Suc (length (trace w)))"
    using assms by (auto simp: bus_ok_def dest: bspec [of _ _ 0] bspec [of _ _ 1])
  then show ?thesis
    by (simp add: set_accel_range_def py_bind_def write_byte_data_def Let_def)
qed

lemma set_gyro_range_ok:
  assumes "bus_ok w 2"
  shows "set_gyro_range self r w =
           (Inr (),
            w\<lparr>trace := trace w @ [WriteByte (address self) GYRO_CONFIG 0x00,
                                     WriteByte (address self) GYRO_CONFIG r],
              regs := (regs w)(address self :=
                        (regs w (address self))(GYRO_CONFIG := word_of_int r))\<rparr>)"
proof -
  have "\<not> nack w (length (trace w))" and "\<not> nack w (Suc (length (trace w)))"
    using assms by (auto simp: bus_ok_def dest: bspec [of _ _ 0] bspec [of _ _ 1])
  then show ?thesis
    by (simp add: set_gyro_range_def py_bind_def write_byte_data_def Let_def)
qed

section \<open>Reading a word\<close>

text \<open>
  C1. When its two bus reads succeed, \<^verbatim>\<open>read_i2c_word\<close> returns the two's-complement
  decoding of the 16-bit value \<open>(high << 8) | low\<close> of the two bytes read: the value
  itself below 0x8000, the value minus 0x10000 from there on. So 0x7FFF gives 32767,
  0x8000 gives -32768 and 0xFFFF gives -1.
\<close>

theorem read_i2c_word_twos_complement:
  assumes "bus_ok w 2"
  shows "let high = uint (regs w (address self) register);
             low = uint (regs w (address self) (register + 1));
             v = push_bit 8 high OR low;
             res = fst (read_i2c_word self register w)
         in res = Inr (if v < 0x8000 then v else v - 0x10000)
            \<and> res = Inr (sint (word_of_int v :: 16 word))
            \<and> (v = 0x7FFF \<longrightarrow> res = Inr 32767)
            \<and> (v = 0x8000 \<longrightarrow> res = Inr (- 32768))
            \<and> (v = 0xFFFF \<longrightarrow> res = Inr (- 1))"
proof -
  let ?hi = "regs w (address self) register"
  let ?lo = "regs w (address self) (register + 1)"
  let ?v = "push_bit 8 (uint ?hi) OR uint ?lo"
  have v: "?v = uint (word_cat ?hi ?lo :: 16 word)"
    by (simp add: byte_or_eq_add uint_word_cat_bytes)
  have res: "fst (read_i2c_word self register w) = Inr (sint (word_cat ?hi ?lo :: 16 word))"
    by (simp add: read_i2c_word_ok [OF assms] sample_def)
  have cases: "sint (word_cat ?hi ?lo :: 16 word) = (if ?v < 0x8000 then ?v else ?v - 0x10000)"
    by (simp only: v sint16_cases)
  have word: "(word_of_int ?v :: 16 word) = word_cat ?hi ?lo"
    by (simp only: v word_of_int_uint)
  show ?thesis
    unfolding Let_def res word
    by (simp add: cases)
qed

theorem read_i2c_word_twos_complement_witness:
  "bus_ok (world_of (\<lambda>r. if r = 0x41 then 0x7F else 0xFF)) 2
   \<and> fst (read_i2c_word mpu0 0x41 (world_of (\<lambda>r. if r = 0x41 then 0x7F else 0xFF))) = Inr 32767
   \<and> bus_ok (world_of (\<lambda>r. if r = 0x41 then 0x80 else 0x00)) 2
   \<and> fst (read_i2c_word mpu0 0x41 (world_of (\<lambda>r. if r = 0x41 then 0x80 else 0x00))) = Inr (- 32768)
   \<and> bus_ok (world_of (\<lambda>r. 0xFF)) 2
   \<and> fst (read_i2c_word mpu0 0x41 (world_of (\<lambda>r. 0xFF))) = Inr (- 1)"
  using read_i2c_word_twos_complement
          [OF bus_ok_world_of, of "\<lambda>r. if r = 0x41 then 0x7F else 0xFF" mpu0 "0x41"]
        read_i2c_word_twos_complement
          [OF bus_ok_world_of, of "\<lambda>r. if r = 0x41 then 0x80 else 0x00" mpu0 "0x41"]
        read_i2c_word_twos_complement
          [OF bus_ok_world_of, of "\<lambda>r. 0xFF" mpu0 "0x41"]
  by (simp add: bus_ok_world_of Let_def world_of_sel)

section \<open>The aggregate call\<close>

text \<open>
  C2. The claim is that \<^verbatim>\<open>get_all_data\<close> runs the instance's three measurements once
  each and returns them as a triple. The code calls the bare name \<^verbatim>\<open>get_temp\<close>, which
  no scope binds: on every instance and in every state of the bus the call raises
  NameError at once, with no bus transaction and no result.
\<close>

theorem get_all_data_raises_NameError:
  "get_all_data self w = (Inl (NameError ''get_temp''), w)"
  by (simp add: get_all_data_def call_global_def module_globals_def py_bind_def raise_def)

section \<open>The range queries\<close>

text \<open>
  C6. With \<^verbatim>\<open>raw=False\<close>, and the bus read succeeding, \<^verbatim>\<open>read_accel_range\<close> returns
  2, 4, 8 or 16 for the bytes 0x00, 0x08, 0x10 and 0x18 of the configuration register
  and -1 for every other byte; \<^verbatim>\<open>read_gyro_range\<close> returns 250, 500, 1000, 2000 or -1
  in the same way. The outcome is always a returned int, never an exception.
\<close>

theorem read_range_sentinel:
  assumes "bus_ok w 1"
  shows "fst (read_accel_range self (PyBool False) w) =
           Inr (PyInt (let c = uint (regs w (address self) ACCEL_CONFIG)
                       in if c = ACCEL_RANGE_2G then 2
                          else if c = ACCEL_RANGE_4G then 4
                          else if c = ACCEL_RANGE_8G then 8
                          else if c = ACCEL_RANGE_16G then 16
                          else - 1))
       \<and> fst (read_gyro_range self (PyBool False) w) =
           Inr (PyInt (let c = uint (regs w (address self) GYRO_CONFIG)
                       in if c = GYRO_RANGE_250DEG then 250
                          else if c = GYRO_RANGE_500DEG then 500
                          else if c = GYRO_RANGE_1000DEG then 1000
                          else if c = GYRO_RANGE_2000DEG then 2000
                          else - 1))"
  by (simp add: read_accel_range_ok [OF assms] read_gyro_range_ok [OF assms] Let_def
        ACCEL_RANGE_2G_def ACCEL_RANGE_4G_def ACCEL_RANGE_8G_def ACCEL_RANGE_16G_def
        GYRO_RANGE_250DEG_def GYRO_RANGE_500DEG_def GYRO_RANGE_1000DEG_def
        GYRO_RANGE_2000DEG_def)

theorem read_range_sentinel_witness:
  "bus_ok (world_of (\<lambda>r. 0x00)) 1
   \<and> fst (read_accel_range mpu0 (PyBool False) (world_of (\<lambda>r. 0x00))) = Inr (PyInt 2)
   \<and> fst (read_gyro_range mpu0 (PyBool False) (world_of (\<lambda>r. 0x00))) = Inr (PyInt 250)
   \<and> fst (read_accel_range mpu0 (PyBool False) (world_of (\<lambda>r. 0x08))) = Inr (PyInt 4)
   \<and> fst (read_gyro_range mpu0 (PyBool False) (world_of (\<lambda>r. 0x08))) = Inr (PyInt 500)
   \<and> fst (read_accel_range mpu0 (PyBool False) (world_of (\<lambda>r. 0x10))) = Inr (PyInt 8)
   \<and> fst (read_gyro_range mpu0 (PyBool False) (world_of (\<lambda>r. 0x10))) = Inr (PyInt 1000)
   \<and> fst (read_accel_range mpu0 (PyBool False) (world_of (\<lambda>r. 0x18))) = Inr (PyInt 16)
   \<and> fst (read_gyro_range mpu0 (PyBool False) (world_of (\<lambda>r. 0x18))) = Inr (PyInt 2000)
   \<and> fst (read_accel_range mpu0 (PyBool False) (world_of (\<lambda>r. 0x03))) = Inr (PyInt (- 1))
   \<and> fst (read_gyro_range mpu0 (PyBool False) (world_of (\<lambda>r. 0xE0))) = Inr (PyInt (- 1))"
  using read_range_sentinel [where w = "world_of (\<lambda>r. 0x00)" and self = mpu0]
        read_range_sentinel [where w = "world_of (\<lambda>r. 0x08)" and self = mpu0]
        read_range_sentinel [where w = "world_of (\<lambda>r. 0x10)" and self = mpu0]
        read_range_sentinel [where w = "world_of (\<lambda>r. 0x18)" and self = mpu0]
        read_range_sentinel [where w = "world_of (\<lambda>r. 0x03)" and self = mpu0]
        read_range_sentinel [where w = "world_of (\<lambda>r. 0xE0)" and self = mpu0]
  by (simp add: bus_ok_world_of world_of_sel Let_def
        ACCEL_RANGE_2G_def ACCEL_RANGE_4G_def ACCEL_RANGE_8G_def ACCEL_RANGE_16G_def
        GYRO_RANGE_250DEG_def GYRO_RANGE_500DEG_def GYRO_RANGE_1000DEG_def
        GYRO_RANGE_2000DEG_def)

text \<open>
  C10. A flag that is neither the object \<^verbatim>\<open>True\<close> nor the object \<^verbatim>\<open>False\<close> (the int 1,
  say) passes neither identity test: \<^verbatim>\<open>get_accel_data\<close>, \<^verbatim>\<open>read_accel_range\<close> and
  \<^verbatim>\<open>read_gyro_range\<close> still do their bus reads, then fall off their end and return
  \<^verbatim>\<open>None\<close>.
\<close>

theorem non_bool_flag_returns_None:
  assumes "bus_ok w 7" and "flag \<noteq> PyBool True" and "flag \<noteq> PyBool False"
  shows "fst (get_accel_data self flag w) = Inr PyNone
       \<and> fst (read_accel_range self flag w) = Inr PyNone
       \<and> fst (read_gyro_range self flag w) = Inr PyNone"
proof -
  have one: "bus_ok w 1"
    using assms(1) by (rule bus_ok_mono) simp
  show ?thesis
    using assms(2,3)
    by (simp add: get_accel_data_ok [OF assms(1)] read_accel_range_ok [OF one]
          read_gyro_range_ok [OF one] Let_def)
qed

theorem non_bool_flag_returns_None_witness:
  "bus_ok (world_of (\<lambda>r. 0x00)) 7 \<and> PyInt 1 \<noteq> PyBool True \<and> PyInt 1 \<noteq> PyBool False
   \<and> fst (get_accel_data mpu0 (PyInt 1) (world_of (\<lambda>r. 0x00))) = Inr PyNone
   \<and> fst (read_accel_range mpu0 (PyInt 1) (world_of (\<lambda>r. 0x00))) = Inr PyNone
   \<and> fst (read_gyro_range mpu0 (PyInt 1) (world_of (\<lambda>r. 0x00))) = Inr PyNone"
  using non_bool_flag_returns_None
          [where w = "world_of (\<lambda>r. 0x00)" and flag = "PyInt 1" and self = mpu0]
  by (simp add: bus_ok_world_of)

section \<open>Setting a range\<close>

text \<open>
  C8. For each of the four accelerometer ranges \<open>R\<close>, \<^verbatim>\<open>set_accel_range(R)\<close> followed
  at once by \<^verbatim>\<open>read_accel_range(True)\<close> returns the byte encoding \<open>R\<close>, when the three
  bus transactions succeed.
\<close>

theorem set_then_read_accel_range:
  assumes "bus_ok w 3"
    and "R \<in> {ACCEL_RANGE_2G, ACCEL_RANGE_4G, ACCEL_RANGE_8G, ACCEL_RANGE_16G}"
  shows "fst (py_bind (set_accel_range self R) (\<lambda>_. read_accel_range self (PyBool True)) w)
           = Inr (PyInt R)"
proof -
  let ?a = "address self"
  let ?w1 = "w\<lparr>regs := (regs w)(?a := (regs w ?a)(ACCEL_CONFIG := word_of_int R))\<rparr>"
  let ?ops = "[WriteByte ?a ACCEL_CONFIG 0x00, WriteByte ?a ACCEL_CONFIG R]"
  have two: "bus_ok w 2"
    using assms(1) by (rule bus_ok_mono) simp
  have set: "set_accel_range self R w = (Inr (), ?w1\<lparr>trace := trace ?w1 @ ?ops\<rparr>)"
    by (simp add: set_accel_range_ok [OF two])
  have ok: "bus_ok ?w1 (Suc (length ?ops))"
    using assms(1) by (simp add: bus_ok_def)
  have "read_accel_range self (PyBool True) (?w1\<lparr>trace := trace ?w1 @ ?ops\<rparr>) =
               (Inr (PyInt (uint (word_of_int R :: 8 word))),
                ?w1\<lparr>trace := trace ?w1 @ ?ops @ [ReadByte ?a ACCEL_CONFIG]\<rparr>)"
    using read_accel_range_at [OF ok, of self "PyBool True"] by simp
  moreover have "uint (word_of_int R :: 8 word) = R"
    using assms(2)
    by (auto simp: ACCEL_RANGE_2G_def ACCEL_RANGE_4G_def ACCEL_RANGE_8G_def
          ACCEL_RANGE_16G_def)
  ultimately show ?thesis
    by (simp add: py_bind_def set)
qed

theorem set_then_read_accel_range_witness:
  "bus_ok (world_of (\<lambda>r. 0xFF)) 3
   \<and> fst (py_bind (set_accel_range mpu0 0x00) (\<lambda>_. read_accel_range mpu0 (PyBool True))
            (world_of (\<lambda>r. 0xFF))) = Inr (PyInt 0x00)
   \<and> fst (py_bind (set_accel_range mpu0 0x08) (\<lambda>_. read_accel_range mpu0 (PyBool True))
            (world_of (\<lambda>r. 0xFF))) = Inr (PyInt 0x08)
   \<and> fst (py_bind (set_accel_range mpu0 0x10) (\<lambda>_. read_accel_range mpu0 (PyBool True))
            (world_of (\<lambda>r. 0xFF))) = Inr (PyInt 0x10)
   \<and> fst (py_bind (set_accel_range mpu0 0x18) (\<lambda>_. read_accel_range mpu0 (PyBool True))
            (world_of (\<lambda>r. 0xFF))) = Inr (PyInt 0x18)"
  using set_then_read_accel_range [where w = "world_of (\<lambda>r. 0xFF)" and self = mpu0 and R = "0x00"]
        set_then_read_accel_range [where w = "world_of (\<lambda>r. 0xFF)" and self = mpu0 and R = "0x08"]
        set_then_read_accel_range [where w = "world_of (\<lambda>r. 0xFF)" and self = mpu0 and R = "0x10"]
        set_then_read_accel_range [where w = "world_of (\<lambda>r. 0xFF)" and self = mpu0 and R = "0x18"]
  by (simp add: bus_ok_world_of ACCEL_RANGE_2G_def ACCEL_RANGE_4G_def ACCEL_RANGE_8G_def
        ACCEL_RANGE_16G_def)

text \<open>
  C9. When its bus transactions succeed, \<^verbatim>\<open>set_accel_range\<close> adds exactly two
  transactions to the bus log, both writes to the accelerometer's configuration
  register of the instance's device, first of 0x00 and then of the requested value,
  and no other register of any device changes; \<^verbatim>\<open>set_gyro_range\<close> does the same on
  the gyroscope's configuration register.
\<close>

theorem set_range_two_writes:
  assumes "bus_ok w 2"
  shows "(let w' = snd (set_accel_range self R w)
          in fst (set_accel_range self R w) = Inr ()
             \<and> trace w' = trace w @ [WriteByte (address self) ACCEL_CONFIG 0x00,
                                      WriteByte (address self) ACCEL_CONFIG R]
             \<and> regs w' (address self) ACCEL_CONFIG = word_of_int R
             \<and> (\<forall>a r. (a, r) \<noteq> (address self, ACCEL_CONFIG) \<longrightarrow> regs w' a r = regs w a r))
       \<and> (let w' = snd (set_gyro_range self R w)
          in fst (set_gyro_range self R w) = Inr ()
             \<and> trace w' = trace w @ [WriteByte (address self) GYRO_CONFIG 0x00,
                                      WriteByte (address self) GYRO_CONFIG R]
             \<and> regs w' (address self) GYRO_CONFIG = word_of_int R
             \<and> (\<forall>a r. (a, r) \<noteq> (address self, GYRO_CONFIG) \<longrightarrow> regs w' a r = regs w a r))"
  by (simp add: set_accel_range_ok [OF assms] set_gyro_range_ok [OF assms])

theorem set_range_two_writes_witness:
  "bus_ok (world_of (\<lambda>r. 0xFF)) 2
   \<and> trace (snd (set_accel_range mpu0 0x18 (world_of (\<lambda>r. 0xFF))))
       = [WriteByte 0x68 0x1C 0x00, WriteByte 0x68 0x1C 0x18]
   \<and> regs (snd (set_accel_range mpu0 0x18 (world_of (\<lambda>r. 0xFF)))) 0x68 0x1C = 0x18
   \<and> regs (snd (set_accel_range mpu0 0x18 (world_of (\<lambda>r. 0xFF)))) 0x68 0x1B = 0xFF
   \<and> regs (snd (set_accel_range mpu0 0x18 (world_of (\<lambda>r. 0xFF)))) 0x69 0x1C = 0xFF
   \<and> trace (snd (set_gyro_range mpu0 0x18 (world_of (\<lambda>r. 0xFF))))
       = [WriteByte 0x68 0x1B 0x00, WriteByte 0x68 0x1B 0x18]
   \<and> regs (snd (set_gyro_range mpu0 0x18 (world_of (\<lambda>r. 0xFF)))) 0x68 0x1B = 0x18
   \<and> regs (snd (set_gyro_range mpu0 0x18 (world_of (\<lambda>r. 0xFF)))) 0x68 0x1C = 0xFF"
  using set_range_two_writes [where w = "world_of (\<lambda>r. 0xFF)" and self = mpu0 and R = "0x18"]
  by (simp add: bus_ok_world_of world_of_sel Let_def mpu0_def ACCEL_CONFIG_def GYRO_CONFIG_def)

section \<open>The measurements\<close>

text \<open>
  C3. When its two bus reads succeed, \<^verbatim>\<open>get_temp\<close> returns \<open>raw / 340 + 36.53\<close> for the
  signed 16-bit sample \<open>raw\<close> of the temperature registers, the quotient being Python's
  true division of two ints and the sum a float addition: the float returned is within
  \<open>2 ^ -44\<close> of the real number \<open>raw / 340 + 36.53\<close>, which no truncating division
  achieves. For \<open>raw = 0\<close> the result is exactly the float 36.53, for \<open>raw = 340\<close> exactly
  the float 37.53.
\<close>

theorem get_temp_formula:
  assumes "bus_ok w 2"
  shows "let raw = sample w (address self) TEMP_OUT0;
             t = float_add (int_truediv raw 340) (float_lit (3653 / 100));
             res = fst (get_temp self w)
         in res = Inr t
            \<and> \<bar>t - (real_of_int raw / 340 + 3653 / 100)\<bar> \<le> 1 / 2 ^ 44
            \<and> (raw = 0 \<longrightarrow> res = Inr (float_lit (3653 / 100)))
            \<and> (raw = 340 \<longrightarrow> res = Inr (float_lit (3753 / 100)))"
proof -
  have zero: "float_add (int_truediv 0 340) (float_lit (3653 / 100)) = float_lit (3653 / 100)"
    by (simp add: float_add_def int_truediv_def float_lit_def fl_0 fl_3653 fl_L)
  have one: "float_add (int_truediv 340 340) (float_lit (3653 / 100)) = float_lit (3753 / 100)"
    by (simp add: float_add_def int_truediv_def float_lit_def fl_1 fl_3653 fl_3753 fl_L1)
  have near: "\<bar>float_add (int_truediv (sample w (address self) TEMP_OUT0) 340)
                 (float_lit (3653 / 100))
               - (real_of_int (sample w (address self) TEMP_OUT0) / 340 + 3653 / 100)\<bar>
              \<le> 1 / 2 ^ 44"
    by (rule temp_accuracy) (rule sample_range)+
  show ?thesis
    unfolding Let_def
    using zero one near by (simp add: get_temp_ok [OF assms])
qed

theorem get_temp_formula_witness:
  "bus_ok (world_of (\<lambda>r. 0x00)) 2
   \<and> fst (get_temp mpu0 (world_of (\<lambda>r. 0x00))) = Inr (float_lit (3653 / 100))
   \<and> bus_ok (world_of (\<lambda>r. if r = 0x41 then 0x01 else 0x54)) 2
   \<and> fst (get_temp mpu0 (world_of (\<lambda>r. if r = 0x41 then 0x01 else 0x54)))
       = Inr (float_lit (3753 / 100))"
  using get_temp_formula [where w = "world_of (\<lambda>r. 0x00)" and self = mpu0]
        get_temp_formula [where w = "world_of (\<lambda>r. if r = 0x41 then 0x01 else 0x54)" and self = mpu0]
  by (auto simp add: bus_ok_world_of world_of_sel Let_def sample_eq TEMP_OUT0_def)


text \<open>
  C4. When its seven bus reads succeed, \<^verbatim>\<open>get_accel_data\<close> divides each raw axis by the
  scale modifier paired with the byte in the configuration register, and the float
  quotient is the exact real quotient. With \<^verbatim>\<open>g=True\<close> it returns the quotients under
  the keys x, y, z; with \<^verbatim>\<open>g=False\<close> each quotient times 9.80665, a float product
  within \<open>2 ^ -44\<close> of the real one. Raw axes (16384, -16384, 0) in the 2g range give
  exactly (1.0, -1.0, 0.0) in g and (9.80665, -9.80665, 0.0) in m/s^2.
\<close>

theorem get_accel_data_units:
  assumes "bus_ok w 7"
  shows "let a = address self;
             c = uint (regs w a ACCEL_CONFIG);
             m = accel_modifier c;
             x = sample w a ACCEL_XOUT0;
             y = sample w a ACCEL_YOUT0;
             z = sample w a ACCEL_ZOUT0;
             in_g = fst (get_accel_data self (PyBool True) w);
             in_ms2 = fst (get_accel_data self (PyBool False) w)
         in in_g = Inr (PyDict [(''x'', PyFloat (real_of_int x / m)),
                                (''y'', PyFloat (real_of_int y / m)),
                                (''z'', PyFloat (real_of_int z / m))])
            \<and> in_ms2 = Inr (PyDict
                  [(''x'', PyFloat (float_mul (real_of_int x / m) GRAVITIY_MS2)),
                   (''y'', PyFloat (float_mul (real_of_int y / m) GRAVITIY_MS2)),
                   (''z'', PyFloat (float_mul (real_of_int z / m) GRAVITIY_MS2))])
            \<and> \<bar>float_mul (real_of_int x / m) GRAVITIY_MS2
                 - real_of_int x / m * (980665 / 100000)\<bar> \<le> 1 / 2 ^ 44
            \<and> \<bar>float_mul (real_of_int y / m) GRAVITIY_MS2
                 - real_of_int y / m * (980665 / 100000)\<bar> \<le> 1 / 2 ^ 44
            \<and> \<bar>float_mul (real_of_int z / m) GRAVITIY_MS2
                 - real_of_int z / m * (980665 / 100000)\<bar> \<le> 1 / 2 ^ 44
            \<and> (x = 16384 \<and> y = - 16384 \<and> z = 0 \<and> c = ACCEL_RANGE_2G \<longrightarrow>
                 in_g = Inr (PyDict [(''x'', PyFloat 1), (''y'', PyFloat (- 1)),
                                     (''z'', PyFloat 0)])
                 \<and> in_ms2 = Inr (PyDict
                       [(''x'', PyFloat (float_lit (980665 / 100000))),
                        (''y'', PyFloat (- float_lit (980665 / 100000))),
                        (''z'', PyFloat 0)]))"
proof -
  let ?a = "address self"
  let ?m = "accel_modifier (uint (regs w ?a ACCEL_CONFIG))"
  have quot: "int_float_truediv (sample w ?a r) ?m = real_of_int (sample w ?a r) / ?m" for r
    by (rule accel_quotient_exact) (rule sample_range)+
  have near: "\<bar>float_mul (real_of_int (sample w ?a r) / ?m) GRAVITIY_MS2
               - real_of_int (sample w ?a r) / ?m * (980665 / 100000)\<bar> \<le> 1 / 2 ^ 44" for r
    by (rule ms2_accuracy) (rule sample_range)+
  have ex: "accel_modifier ACCEL_RANGE_2G = 16384"
    by (simp add: accel_modifier_cases ACCEL_RANGE_2G_def)
  have fl: "float_mul 1 GRAVITIY_MS2 = float_lit (980665 / 100000)"
    "float_mul (- 1) GRAVITIY_MS2 = - float_lit (980665 / 100000)"
    "float_mul 0 GRAVITIY_MS2 = 0"
    by (rule accel_example_floats)+
  show ?thesis
    unfolding Let_def get_accel_data_ok [OF assms] quot
    using near [of ACCEL_XOUT0] near [of ACCEL_YOUT0] near [of ACCEL_ZOUT0]
    by (simp add: ex fl)
qed

theorem get_accel_data_units_witness:
  "bus_ok (world_of (\<lambda>r. if r = 0x3B then 0x40 else if r = 0x3D then 0xC0 else 0x00)) 7
   \<and> fst (get_accel_data mpu0 (PyBool True)
            (world_of (\<lambda>r. if r = 0x3B then 0x40 else if r = 0x3D then 0xC0 else 0x00)))
       = Inr (PyDict [(''x'', PyFloat 1), (''y'', PyFloat (- 1)), (''z'', PyFloat 0)])
   \<and> fst (get_accel_data mpu0 (PyBool False)
            (world_of (\<lambda>r. if r = 0x3B then 0x40 else if r = 0x3D then 0xC0 else 0x00)))
       = Inr (PyDict [(''x'', PyFloat (float_lit (980665 / 100000))),
                      (''y'', PyFloat (- float_lit (980665 / 100000))),
                      (''z'', PyFloat 0)])"
  using get_accel_data_units
          [where w = "world_of (\<lambda>r. if r = 0x3B then 0x40 else if r = 0x3D then 0xC0 else 0x00)"
             and self = mpu0]
  by (auto simp add: bus_ok_world_of world_of_sel Let_def sample_eq
        ACCEL_XOUT0_def ACCEL_YOUT0_def ACCEL_ZOUT0_def ACCEL_CONFIG_def ACCEL_RANGE_2G_def)


text \<open>
  C7. When the configuration register holds none of the four range encodings, and the
  seven bus reads succeed, the measurement does not fail: \<^verbatim>\<open>get_accel_data\<close> divides by
  16384.0, the 2g modifier, in either unit, \<^verbatim>\<open>get_gyro_data\<close> divides by 131.0, the
  250 deg/s modifier, and each prints its warning line.
\<close>

theorem unknown_range_falls_back:
  assumes "bus_ok w 7"
  shows "(let a = address self;
              x = sample w a ACCEL_XOUT0;
              y = sample w a ACCEL_YOUT0;
              z = sample w a ACCEL_ZOUT0;
              in_g = get_accel_data self (PyBool True) w;
              in_ms2 = get_accel_data self (PyBool False) w
          in uint (regs w a ACCEL_CONFIG) \<notin> {0x00, 0x08, 0x10, 0x18} \<longrightarrow>
               fst in_g = Inr (PyDict [(''x'', PyFloat (real_of_int x / 16384)),
                                       (''y'', PyFloat (real_of_int y / 16384)),
                                       (''z'', PyFloat (real_of_int z / 16384))])
               \<and> fst in_ms2 = Inr (PyDict
                     [(''x'', PyFloat (float_mul (real_of_int x / 16384) GRAVITIY_MS2)),
                      (''y'', PyFloat (float_mul (real_of_int y / 16384) GRAVITIY_MS2)),
                      (''z'', PyFloat (float_mul (real_of_int z / 16384) GRAVITIY_MS2))])
               \<and> stdout (snd in_g) = stdout w @
                     [''Unkown range - accelScaleModifier set to self.ACCEL_SCALE_MODIFIER_2G'']
               \<and> stdout (snd in_ms2) = stdout w @
                     [''Unkown range - accelScaleModifier set to self.ACCEL_SCALE_MODIFIER_2G''])
       \<and> (let a = address self;
              x = sample w a GYRO_XOUT0;
              y = sample w a GYRO_YOUT0;
              z = sample w a GYRO_ZOUT0;
              rate = get_gyro_data self w
          in uint (regs w a GYRO_CONFIG) \<notin> {0x00, 0x08, 0x10, 0x18} \<longrightarrow>
               fst rate = Inr (PyDict [(''x'', PyFloat (int_float_truediv x 131)),
                                       (''y'', PyFloat (int_float_truediv y 131)),
                                       (''z'', PyFloat (int_float_truediv z 131))])
               \<and> stdout (snd rate) = stdout w @
                     [''Unkown range - gyroScaleModifier set to self.GYRO_SCALE_MODIFIER_250DEG''])"
proof -
  let ?a = "address self"
  let ?m = "accel_modifier (uint (regs w ?a ACCEL_CONFIG))"
  have quot: "int_float_truediv (sample w ?a r) ?m = real_of_int (sample w ?a r) / ?m" for r
    by (rule accel_quotient_exact) (rule sample_range)+
  have g: "GYRO_SCALE_MODIFIER_250DEG = 131"
    by (simp add: GYRO_SCALE_MODIFIER_250DEG_def float_lit_def fl_131)
  show ?thesis
    unfolding Let_def get_accel_data_ok [OF assms] get_gyro_data_ok [OF assms] quot
    by (simp add: accel_modifier_cases accel_known_def gyro_modifier_def gyro_known_def g
          ACCEL_RANGE_2G_def ACCEL_RANGE_4G_def ACCEL_RANGE_8G_def ACCEL_RANGE_16G_def
          GYRO_RANGE_250DEG_def GYRO_RANGE_500DEG_def GYRO_RANGE_1000DEG_def
          GYRO_RANGE_2000DEG_def)
qed

theorem unknown_range_falls_back_witness:
  "bus_ok (world_of shaken) 7
   \<and> uint (regs (world_of shaken) (address mpu0) ACCEL_CONFIG) \<notin> {0x00, 0x08, 0x10, 0x18}
   \<and> uint (regs (world_of shaken) (address mpu0) GYRO_CONFIG) \<notin> {0x00, 0x08, 0x10, 0x18}
   \<and> fst (get_accel_data mpu0 (PyBool True) (world_of shaken)) =
       Inr (PyDict [(''x'', PyFloat 1), (''y'', PyFloat (- 1)), (''z'', PyFloat 0)])
   \<and> stdout (snd (get_accel_data mpu0 (PyBool True) (world_of shaken))) =
       [''Unkown range - accelScaleModifier set to self.ACCEL_SCALE_MODIFIER_2G'']
   \<and> fst (get_accel_data mpu0 (PyBool False) (world_of shaken)) =
       Inr (PyDict [(''x'', PyFloat (float_lit (980665 / 100000))),
                    (''y'', PyFloat (- float_lit (980665 / 100000))),
                    (''z'', PyFloat 0)])
   \<and> stdout (snd (get_accel_data mpu0 (PyBool False) (world_of shaken))) =
       [''Unkown range - accelScaleModifier set to self.ACCEL_SCALE_MODIFIER_2G'']
   \<and> fst (get_gyro_data mpu0 (world_of shaken)) =
       Inr (PyDict [(''x'', PyFloat 1), (''y'', PyFloat (- 1)), (''z'', PyFloat 0)])
   \<and> stdout (snd (get_gyro_data mpu0 (world_of shaken))) =
       [''Unkown range - gyroScaleModifier set to self.GYRO_SCALE_MODIFIER_250DEG'']"
proof -
  have m: "ACCEL_SCALE_MODIFIER_2G = 16384" "GYRO_SCALE_MODIFIER_250DEG = 131"
    by (simp_all add: ACCEL_SCALE_MODIFIER_2G_def GYRO_SCALE_MODIFIER_250DEG_def float_lit_def
          fl_16384 fl_131)
  have regs: "sample (world_of shaken) 0x68 0x3B = 16384"
    "sample (world_of shaken) 0x68 0x3D = - 16384"
    "sample (world_of shaken) 0x68 0x3F = 0"
    "sample (world_of shaken) 0x68 0x43 = 131"
    "sample (world_of shaken) 0x68 0x45 = - 131"
    "sample (world_of shaken) 0x68 0x47 = 0"
    "uint (shaken 0x1C) = 0xE0" "uint (shaken 0x1B) = 0xE0"
    by (simp_all add: sample_eq world_of_sel shaken_def)
  show ?thesis
    using unknown_range_falls_back [where w = "world_of shaken" and self = mpu0]
      accel_example_floats [unfolded m] fallback_example_floats [unfolded m]
    by (simp add: bus_ok_world_of world_of_sel Let_def regs mpu0_def
          ACCEL_XOUT0_def ACCEL_YOUT0_def ACCEL_ZOUT0_def ACCEL_CONFIG_def
          GYRO_XOUT0_def GYRO_YOUT0_def GYRO_ZOUT0_def GYRO_CONFIG_def)
qed


section \<open>The order of the bus transactions\<close>




end
